theory Spec2Isabelle
  imports Main
begin

section \<open>Requests, responses and view descriptors\<close>

text \<open>
  An inbound request as the handlers and the router see it: the method token and the
  pathname that routing looks at, and the rest of its content (query string, headers,
  body), which no code of the application reads.
\<close>

record request =
  req_method :: string
  req_path :: string
  req_query :: string
  req_headers :: "(string \<times> string) list"
  req_body :: string

text \<open>
  The two arguments of one call \<open>res.render(view, locals)\<close>: the template name and the
  object literal handed to the template, with its keys in the order they are written.
\<close>

record view_descriptor =
  templateName :: string
  vcontext :: "(string \<times> string) list"

text \<open>
  The application object, as far as a handler can reach it through \<open>res.app\<close>: its
  settings (the entry module sets two of them, lines 14 and 15) and its locals. It is
  the state that all requests of the process share.
\<close>

record app_state =
  app_settings :: "(string \<times> string) list"
  app_locals :: "(string \<times> string) list"

text \<open>
  The response object of one request. The only thing a handler does to it is to call
  \<open>res.render\<close>; the response keeps the calls in the order they were made. It also
  refers to the application.
\<close>

record response =
  render_calls :: "view_descriptor list"
  res_app :: app_state

text \<open>A response on which nothing has been rendered, of an application with no settings.\<close>

definition new_response :: response where
  "new_response = \<lparr>render_calls = [], res_app = \<lparr>app_settings = [], app_locals = []\<rparr>\<rparr>"

definition res_render :: "string \<Rightarrow> (string \<times> string) list \<Rightarrow> response \<Rightarrow> response" where
  "res_render view locals res =
     res\<lparr>render_calls := render_calls res @ [\<lparr>templateName = view, vcontext = locals\<rparr>]\<rparr>"

section \<open>The page handlers (src/controllers/routes.js)\<close>

definition renderHome :: "request \<Rightarrow> response \<Rightarrow> response" where
  "renderHome req res =
     res_render ''home''
       [(''title'', ''Home - Shows Review''), (''currentPage'', ''home'')] res"

definition renderMovies :: "request \<Rightarrow> response \<Rightarrow> response" where
  "renderMovies req res =
     res_render ''movies''
       [(''title'', ''Movies - Shows Review''), (''currentPage'', ''movies'')] res"

definition renderTVShows :: "request \<Rightarrow> response \<Rightarrow> response" where
  "renderTVShows req res =
     res_render ''tv-shows''
       [(''title'', ''TV Shows - Shows Review''), (''currentPage'', ''tv-shows'')] res"

text \<open>The view descriptors a handler produces for a request, on a fresh response.\<close>

definition produced :: "(request \<Rightarrow> response \<Rightarrow> response) \<Rightarrow> request \<Rightarrow> view_descriptor list" where
  "produced h req = render_calls (h req new_response)"

definition handlers :: "(request \<Rightarrow> response \<Rightarrow> response) list" where
  "handlers = [renderHome, renderMovies, renderTVShows]"

section \<open>Process configuration (entry module, line 33)\<close>

text \<open>
  The values the expression \<open>process.env.PORT || 3000\<close> ranges over. A variable of the
  environment is a string when it is set and \<open>undefined\<close> when it is not; \<open>||\<close>
  yields its left operand when that is truthy and its right operand otherwise, and the
  empty string, like \<open>undefined\<close> and the number zero, is falsy.
\<close>

datatype js_value = JUndefined | JString string | JNumber int

fun truthy :: "js_value \<Rightarrow> bool" where
  "truthy JUndefined = False"
| "truthy (JString s) = (s \<noteq> [])"
| "truthy (JNumber n) = (n \<noteq> 0)"

definition js_or :: "js_value \<Rightarrow> js_value \<Rightarrow> js_value" where
  "js_or a b = (if truthy a then a else b)"

definition process_env :: "(string \<rightharpoonup> string) \<Rightarrow> string \<Rightarrow> js_value" where
  "process_env env k = (case env k of None \<Rightarrow> JUndefined | Some s \<Rightarrow> JString s)"

text \<open>The constant \<open>PORT\<close>, the first argument of \<open>app.listen\<close>.\<close>

definition PORT :: "(string \<rightharpoonup> string) \<Rightarrow> js_value" where
  "PORT env = js_or (process_env env ''PORT'') (JNumber 3000)"

section \<open>Routing (entry module, lines 11 to 30)\<close>

text \<open>
  The entry module (unnamed/part_000) creates an Express application and leaves the
  framework's settings at their defaults: it enables neither case sensitive routing
  nor strict routing. The meaning of \<open>app.get\<close> is the framework's; the definitions
  of this section follow the router of Express 5 as far as the three registrations
  of the entry module exercise it.

  A route holds the method it was registered for, its path, and its handler.
\<close>

record route =
  r_method :: string
  r_path :: string
  r_handler :: "request \<Rightarrow> response \<Rightarrow> response"

text \<open>The three registrations, in the order of lines 28 to 30.\<close>

definition routes :: "route list" where
  "routes =
     [\<lparr>r_method = ''GET'', r_path = ''/'', r_handler = renderHome\<rparr>,
      \<lparr>r_method = ''GET'', r_path = ''/movies'', r_handler = renderMovies\<rparr>,
      \<lparr>r_method = ''GET'', r_path = ''/tv-shows'', r_handler = renderTVShows\<rparr>]"

text \<open>
  A literal path is compiled to a regular expression that ignores letter case (the
  expression compares characters by their upper-case form) and allows one trailing
  slash. Among the characters of a byte string only the letters a to z have an
  upper-case form that is a letter A to Z.
\<close>

definition canonicalize :: "char \<Rightarrow> char" where
  "canonicalize c =
     (case map_of (zip ''abcdefghijklmnopqrstuvwxyz'' ''ABCDEFGHIJKLMNOPQRSTUVWXYZ'') c of
        Some u \<Rightarrow> u
      | None \<Rightarrow> c)"

definition layer_match :: "route \<Rightarrow> string \<Rightarrow> bool" where
  "layer_match r p =
     (let q = map canonicalize p; pat = map canonicalize (r_path r)
      in q = pat \<or> q = pat @ ''/'')"

text \<open>
  A route answers the method it was registered for, and a route registered for GET
  and not for HEAD answers HEAD as well. The second function lists the methods a route
  reports for the automatic answer to OPTIONS.
\<close>

definition handles_method :: "route \<Rightarrow> string \<Rightarrow> bool" where
  "handles_method r m =
     (let name = (if m = ''HEAD'' \<and> r_method r \<noteq> ''HEAD'' then ''GET'' else m)
      in r_method r = name)"

definition route_methods :: "route \<Rightarrow> string list" where
  "route_methods r =
     (if r_method r = ''GET'' then [''GET'', ''HEAD''] else [r_method r])"

text \<open>
  What becomes of a request: a handler ran on its response object; or the router
  answered an OPTIONS request itself with the methods it collected (status 200, no
  handler runs); or nothing matched and the final handler answered with the status
  it carries; or a middleware ended the request with the status it carries.
\<close>

datatype outcome =
    Handled response
  | Allow "string list"
  | NotFound nat
  | Ended nat

fun handler_invoked :: "outcome \<Rightarrow> bool" where
  "handler_invoked (Handled res) = True"
| "handler_invoked (Allow ms) = False"
| "handler_invoked (NotFound st) = False"
| "handler_invoked (Ended st) = False"

fun descriptors :: "outcome \<Rightarrow> view_descriptor list" where
  "descriptors (Handled res) = render_calls res"
| "descriptors (Allow ms) = []"
| "descriptors (NotFound st) = []"
| "descriptors (Ended st) = []"

text \<open>
  The router walks the registrations in order. The first one whose path matches and
  which answers the method gets the request, and since no handler of routes.js calls
  \<open>next\<close>, the walk ends there. A registration whose path matches but which does not
  answer the method adds its methods to the answer to an OPTIONS request. At the end
  of the list an OPTIONS request with collected methods is answered with them, and
  every other request with status 404.
\<close>

fun router_handle :: "route list \<Rightarrow> string list \<Rightarrow> request \<Rightarrow> response \<Rightarrow> outcome" where
  "router_handle [] methods req res =
     (if req_method req = ''OPTIONS'' \<and> methods \<noteq> [] then Allow methods
      else NotFound 404)"
| "router_handle (r # rs) methods req res =
     (if layer_match r (req_path req) then
        (if handles_method r (req_method req) then Handled (r_handler r req res)
         else router_handle rs
                (if req_method req = ''OPTIONS'' then methods @ route_methods r else methods)
                req res)
      else router_handle rs methods req res)"

text \<open>
  The middleware in front of the routes (lines 18 to 22): the two body parsers and the
  static file server. They are collaborators whose behaviour depends on the request's
  body and on the files of the public directory, so they are parameters here. Each
  either passes the request on or ends it with a status. The parsers only fill in
  \<open>req.body\<close>, which no handler reads.
\<close>

datatype mw_result = Next | End nat

record collaborators =
  urlencoded :: "request \<Rightarrow> mw_result"
  json :: "request \<Rightarrow> mw_result"
  static :: "request \<Rightarrow> mw_result"

definition app_handle :: "collaborators \<Rightarrow> request \<Rightarrow> response \<Rightarrow> outcome" where
  "app_handle c req res =
     (case urlencoded c req of
        End st \<Rightarrow> Ended st
      | Next \<Rightarrow>
          (case json c req of
             End st \<Rightarrow> Ended st
           | Next \<Rightarrow>
               (case static c req of
                  End st \<Rightarrow> Ended st
                | Next \<Rightarrow> router_handle routes [] req res)))"

text \<open>Collaborators that pass every request on: lenient parsers, an empty public directory.\<close>

definition pass_on :: collaborators where
  "pass_on = \<lparr>urlencoded = (\<lambda>req. Next), json = (\<lambda>req. Next), static = (\<lambda>req. Next)\<rparr>"

text \<open>The path matches one of the registrations.\<close>

definition registered :: "string \<Rightarrow> bool" where
  "registered p = list_ex (\<lambda>r. layer_match r p) routes"

text \<open>
  Whether the three middleware in front of the routes pass a request on to the router.
\<close>

definition passes_on :: "collaborators \<Rightarrow> request \<Rightarrow> bool" where
  "passes_on c req =
     (urlencoded c req = Next \<and> json c req = Next \<and> static c req = Next)"

text \<open>
  A run of the server on a sequence of requests. The application object lives as long
  as the process and is shared by all requests; every request gets a response object of
  its own, which refers to the application as it then is. Whatever a handler has done to
  the application through its response object is what the next request finds.
\<close>

fun state_after :: "app_state \<Rightarrow> outcome \<Rightarrow> app_state" where
  "state_after s (Handled res) = res_app res"
| "state_after s (Allow ms) = s"
| "state_after s (NotFound st) = s"
| "state_after s (Ended st) = s"

fun serve :: "collaborators \<Rightarrow> app_state \<Rightarrow> request list \<Rightarrow> outcome list \<times> app_state" where
  "serve c s [] = ([], s)"
| "serve c s (req # reqs) =
     (let out = app_handle c req (new_response\<lparr>res_app := s\<rparr>);
          rest = serve c (state_after s out) reqs
      in (out # fst rest, snd rest))"

section \<open>Concrete requests\<close>

definition get_movies :: request where
  "get_movies =
     \<lparr>req_method = ''GET'', req_path = ''/movies'', req_query = '''',
      req_headers = [], req_body = ''''\<rparr>"

definition get_movies_query :: request where
  "get_movies_query =
     \<lparr>req_method = ''GET'', req_path = ''/movies'', req_query = ''page=2'',
      req_headers = [(''accept'', ''text/html'')], req_body = ''''\<rparr>"

definition get_nonexistent :: request where
  "get_nonexistent =
     \<lparr>req_method = ''GET'', req_path = ''/nonexistent'', req_query = '''',
      req_headers = [], req_body = ''''\<rparr>"

definition post_movies :: request where
  "post_movies =
     \<lparr>req_method = ''POST'', req_path = ''/movies'', req_query = '''',
      req_headers = [(''content-type'', ''text/plain'')], req_body = ''x''\<rparr>"

definition head_root :: request where
  "head_root =
     \<lparr>req_method = ''HEAD'', req_path = ''/'', req_query = '''',
      req_headers = [], req_body = ''''\<rparr>"

definition get_movies_bad_json :: request where
  "get_movies_bad_json =
     \<lparr>req_method = ''GET'', req_path = ''/movies'', req_query = '''',
      req_headers = [(''content-type'', ''application/json'')], req_body = ''{''\<rparr>"

text \<open>
  The application as the entry module has set it up by the time it listens (lines 14
  and 15), for an installation directory \<open>/srv/app\<close>.
\<close>

definition started_app :: app_state where
  "started_app =
     \<lparr>app_settings = [(''view engine'', ''ejs''), (''views'', ''/srv/app/src/views'')],
      app_locals = []\<rparr>"

text \<open>
  Collaborators whose JSON parser answers a request that announces a JSON body and
  carries the text \<open>{\<close>, which is not JSON, with status 400, as \<open>express.json\<close> does
  whatever the method of the request; everything else is passed on.
\<close>

definition rejecting_json :: collaborators where
  "rejecting_json =
     \<lparr>urlencoded = (\<lambda>req. Next),
      json = (\<lambda>req. if (''content-type'', ''application/json'') \<in> set (req_headers req)
                        \<and> req_body req = ''{''
                     then End 400 else Next),
      static = (\<lambda>req. Next)\<rparr>"

section \<open>Auxiliary facts\<close>

lemma handler_cases:
  "h \<in> set handlers \<Longrightarrow> h = renderHome \<or> h = renderMovies \<or> h = renderTVShows"
  by (auto simp: handlers_def)

lemma produced_simps:
  "produced renderHome req =
     [\<lparr>templateName = ''home'',
       vcontext = [(''title'', ''Home - Shows Review''), (''currentPage'', ''home'')]\<rparr>]"
  "produced renderMovies req =
     [\<lparr>templateName = ''movies'',
       vcontext = [(''title'', ''Movies - Shows Review''), (''currentPage'', ''movies'')]\<rparr>]"
  "produced renderTVShows req =
     [\<lparr>templateName = ''tv-shows'',
       vcontext = [(''title'', ''TV Shows - Shows Review''), (''currentPage'', ''tv-shows'')]\<rparr>]"
  by (simp_all add: produced_def new_response_def res_render_def
        renderHome_def renderMovies_def renderTVShows_def)

lemma renderers_ignore_request:
  "renderHome a res = renderHome b res"
  "renderMovies a res = renderMovies b res"
  "renderTVShows a res = renderTVShows b res"
  by (simp_all add: renderHome_def renderMovies_def renderTVShows_def)

text \<open>The paths the three registrations match, spelled out.\<close>

lemma registered_iff:
  "registered p \<longleftrightarrow>
     map canonicalize p \<in>
       {''/'', ''//'', ''/MOVIES'', ''/MOVIES/'', ''/TV-SHOWS'', ''/TV-SHOWS/''}"
  by (auto simp: registered_def routes_def layer_match_def canonicalize_def)

text \<open>
  The router ends in the final handler exactly when no registration matches the path,
  or one does and the method is none of GET, HEAD and OPTIONS.
\<close>

lemma router_not_found_iff:
  "router_handle routes [] req res = NotFound 404 \<longleftrightarrow>
     (\<not> registered (req_path req) \<or> req_method req \<notin> {''GET'', ''HEAD'', ''OPTIONS''})"
  by (auto simp: registered_def routes_def handles_method_def route_methods_def)

text \<open>An OPTIONS request to a registered path gets the router's own answer.\<close>

lemma router_options_allow:
  "registered (req_path req) \<Longrightarrow> req_method req = ''OPTIONS'' \<Longrightarrow>
     \<exists>ms. router_handle routes [] req res = Allow ms"
  by (auto simp: registered_def routes_def handles_method_def route_methods_def)

lemma PORT_empty_string: "env ''PORT'' = Some [] \<Longrightarrow> PORT env = JNumber 3000"
  by (simp add: PORT_def js_or_def process_env_def)

lemma route_cases:
  assumes "r \<in> set routes"
  obtains
      (home) "r_path r = ''/''" "r_handler r = renderHome"
    | (movies) "r_path r = ''/movies''" "r_handler r = renderMovies"
    | (tv) "r_path r = ''/tv-shows''" "r_handler r = renderTVShows"
  using assms by (auto simp: routes_def)

text \<open>A handler of the route table leaves the application as it found it.\<close>

lemma handler_keeps_app:
  assumes "r \<in> set routes"
  shows "res_app (r_handler r req res) = res_app res"
  using assms
  by (cases rule: route_cases)
     (simp_all add: renderHome_def renderMovies_def renderTVShows_def res_render_def)

lemma handler_calls_any_app:
  assumes "r \<in> set routes"
  shows "render_calls (r_handler r req (res\<lparr>res_app := s\<rparr>)) = render_calls (r_handler r req res)"
  using assms
  by (cases rule: route_cases)
     (simp_all add: renderHome_def renderMovies_def renderTVShows_def res_render_def)

lemma router_handle_Handled:
  "router_handle rs ms req res = Handled res' \<Longrightarrow>
     \<exists>r \<in> set rs. res' = r_handler r req res"
  by (induction rs arbitrary: ms) (auto split: if_splits)

lemma app_handle_Handled:
  assumes "app_handle c req res = Handled res'"
  shows "\<exists>r \<in> set routes. res' = r_handler r req res"
  using assms
  by (auto simp: app_handle_def split: mw_result.splits intro: router_handle_Handled)

lemma state_after_app_handle:
  "state_after (res_app res) (app_handle c req res) = res_app res"
proof (cases "app_handle c req res")
  case (Handled res')
  then obtain r where "r \<in> set routes" and "res' = r_handler r req res"
    using app_handle_Handled by blast
  then show ?thesis
    using Handled by (simp add: handler_keeps_app)
qed simp_all

lemma state_after_fresh:
  "state_after s (app_handle c req (new_response\<lparr>res_app := s\<rparr>)) = s"
  using state_after_app_handle [of "new_response\<lparr>res_app := s\<rparr>" c req] by simp

lemma serve_state: "snd (serve c s rs) = s"
  by (induction rs) (simp_all add: Let_def state_after_fresh)

lemma serve_nth:
  "i < length rs \<Longrightarrow>
     fst (serve c s rs) ! i = app_handle c (rs ! i) (new_response\<lparr>res_app := s\<rparr>)"
proof (induction rs arbitrary: i)
  case Nil
  then show ?case by simp
next
  case (Cons a rs)
  then show ?case
    by (cases i) (simp_all add: Let_def state_after_fresh)
qed

lemma app_handle_passes:
  "passes_on c req \<Longrightarrow> app_handle c req res = router_handle routes [] req res"
  by (simp add: passes_on_def app_handle_def)

lemma router_method_path:
  assumes "req_method a = req_method b" and "req_path a = req_path b"
  shows "router_handle routes [] a res = router_handle routes [] b res"
  using assms renderers_ignore_request [of a res b]
  by (simp add: routes_def)

lemma router_registered_get:
  assumes "req_method a = ''GET''" and "r \<in> set routes" and "r_path r = req_path a"
  shows "router_handle routes [] a res = Handled (r_handler r a res)"
  using assms(2)
proof (cases rule: route_cases)
  case home
  with assms(3) have "req_path a = ''/''" by simp
  with assms(1) home(2) show ?thesis
    by (simp add: routes_def layer_match_def canonicalize_def handles_method_def)
next
  case movies
  with assms(3) have "req_path a = ''/movies''" by simp
  with assms(1) movies(2) show ?thesis
    by (simp add: routes_def layer_match_def canonicalize_def handles_method_def)
next
  case tv
  with assms(3) have "req_path a = ''/tv-shows''" by simp
  with assms(1) tv(2) show ?thesis
    by (simp add: routes_def layer_match_def canonicalize_def handles_method_def)
qed

section \<open>The handlers' contracts\<close>

text \<open>
  C1. For every request (so for every GET request to \<open>/\<close>) and every response object,
  \<open>renderHome\<close> makes exactly one call of \<open>res.render\<close>, with the template name
  \<open>home\<close> and the context \<open>{title: "Home - Shows Review", currentPage: "home"}\<close>.
  The handler is a total function with no error branch: it succeeds on every input.
\<close>

theorem renderHome_descriptor:
  "renderHome req res =
     res\<lparr>render_calls := render_calls res @
       [\<lparr>templateName = ''home'',
         vcontext = [(''title'', ''Home - Shows Review''), (''currentPage'', ''home'')]\<rparr>]\<rparr>
   \<and> produced renderHome req =
       [\<lparr>templateName = ''home'',
         vcontext = [(''title'', ''Home - Shows Review''), (''currentPage'', ''home'')]\<rparr>]"
  by (simp add: renderHome_def res_render_def produced_def new_response_def)

text \<open>
  C2. For every request and every response object, \<open>renderMovies\<close> makes exactly one
  call of \<open>res.render\<close>, with the template name \<open>movies\<close> and the context
  \<open>{title: "Movies - Shows Review", currentPage: "movies"}\<close>; it succeeds on every
  input.
\<close>

theorem renderMovies_descriptor:
  "renderMovies req res =
     res\<lparr>render_calls := render_calls res @
       [\<lparr>templateName = ''movies'',
         vcontext = [(''title'', ''Movies - Shows Review''), (''currentPage'', ''movies'')]\<rparr>]\<rparr>
   \<and> produced renderMovies req =
       [\<lparr>templateName = ''movies'',
         vcontext = [(''title'', ''Movies - Shows Review''), (''currentPage'', ''movies'')]\<rparr>]"
  by (simp add: renderMovies_def res_render_def produced_def new_response_def)

text \<open>
  C3. For every request and every response object, \<open>renderTVShows\<close> makes exactly one
  call of \<open>res.render\<close>, with the template name \<open>tv-shows\<close> and the context
  \<open>{title: "TV Shows - Shows Review", currentPage: "tv-shows"}\<close>; it succeeds on every
  input.
\<close>

theorem renderTVShows_descriptor:
  "renderTVShows req res =
     res\<lparr>render_calls := render_calls res @
       [\<lparr>templateName = ''tv-shows'',
         vcontext = [(''title'', ''TV Shows - Shows Review''), (''currentPage'', ''tv-shows'')]\<rparr>]\<rparr>
   \<and> produced renderTVShows req =
       [\<lparr>templateName = ''tv-shows'',
         vcontext = [(''title'', ''TV Shows - Shows Review''), (''currentPage'', ''tv-shows'')]\<rparr>]"
  by (simp add: renderTVShows_def res_render_def produced_def new_response_def)

text \<open>
  C5. In every view descriptor that one of the three handlers produces for any request,
  a value stored under the key \<open>currentPage\<close> is one of \<open>home\<close>, \<open>movies\<close> and
  \<open>tv-shows\<close>.
\<close>

theorem currentPage_in_closed_set:
  assumes "h \<in> set handlers"
    and "vd \<in> set (produced h req)"
    and "map_of (vcontext vd) ''currentPage'' = Some v"
  shows "v \<in> {''home'', ''movies'', ''tv-shows''}"
  using handler_cases [OF assms(1)] assms(2,3)
  by (auto simp: produced_simps)

theorem currentPage_in_closed_set_witness:
  "renderMovies \<in> set handlers
   \<and> \<lparr>templateName = ''movies'',
       vcontext = [(''title'', ''Movies - Shows Review''), (''currentPage'', ''movies'')]\<rparr>
     \<in> set (produced renderMovies get_movies)
   \<and> map_of [(''title'', ''Movies - Shows Review''), (''currentPage'', ''movies'')]
       ''currentPage'' = Some ''movies''
   \<and> ''movies'' \<in> {''home'', ''movies'', ''tv-shows''}"
proof -
  let ?vd = "\<lparr>templateName = ''movies'',
       vcontext = [(''title'', ''Movies - Shows Review''), (''currentPage'', ''movies'')]\<rparr>"
  have a: "renderMovies \<in> set handlers"
    by (simp add: handlers_def)
  have b: "?vd \<in> set (produced renderMovies get_movies)"
    by (simp add: produced_simps)
  have c: "map_of (vcontext ?vd) ''currentPage'' = Some ''movies''"
    by simp
  from currentPage_in_closed_set [OF a b c] a b c show ?thesis
    by simp
qed

text \<open>
  C7. Each of the three handlers is a constant function of the request: on the same
  response object, any two requests, whatever their method, path, query string, headers
  and body, lead to the same result, and so to the same view descriptors. A handler has
  nothing but the response object to act on.
\<close>

theorem handler_ignores_request:
  assumes "h \<in> set handlers"
  shows "h r1 res = h r2 res \<and> produced h r1 = produced h r2"
  using handler_cases [OF assms]
  by (auto simp: produced_def renderHome_def renderMovies_def renderTVShows_def)

theorem handler_ignores_request_witness:
  "renderTVShows \<in> set handlers
   \<and> get_movies_query \<noteq> post_movies
   \<and> renderTVShows get_movies_query new_response = renderTVShows post_movies new_response
   \<and> produced renderTVShows get_movies_query = produced renderTVShows post_movies"
proof -
  have a: "renderTVShows \<in> set handlers"
    by (simp add: handlers_def)
  have b: "get_movies_query \<noteq> post_movies"
    by (simp add: get_movies_query_def post_movies_def)
  from handler_ignores_request [OF a, of get_movies_query new_response post_movies] a b
  show ?thesis by simp
qed

text \<open>
  C9. In every view descriptor that one of the three handlers produces, the template
  name is the value stored under \<open>currentPage\<close>.
\<close>

theorem templateName_is_currentPage:
  assumes "h \<in> set handlers"
    and "vd \<in> set (produced h req)"
  shows "map_of (vcontext vd) ''currentPage'' = Some (templateName vd)"
  using handler_cases [OF assms(1)] assms(2)
  by (auto simp: produced_simps)

theorem templateName_is_currentPage_witness:
  "renderHome \<in> set handlers
   \<and> \<lparr>templateName = ''home'',
       vcontext = [(''title'', ''Home - Shows Review''), (''currentPage'', ''home'')]\<rparr>
     \<in> set (produced renderHome head_root)
   \<and> map_of [(''title'', ''Home - Shows Review''), (''currentPage'', ''home'')]
       ''currentPage'' = Some ''home''"
proof -
  let ?vd = "\<lparr>templateName = ''home'',
       vcontext = [(''title'', ''Home - Shows Review''), (''currentPage'', ''home'')]\<rparr>"
  have a: "renderHome \<in> set handlers"
    by (simp add: handlers_def)
  have b: "?vd \<in> set (produced renderHome head_root)"
    by (simp add: produced_simps)
  from templateName_is_currentPage [OF a b] a b show ?thesis
    by simp
qed

text \<open>
  C10. The context of every view descriptor that one of the three handlers produces has
  exactly the two keys \<open>title\<close> and \<open>currentPage\<close>, each once.
\<close>

theorem context_keys_exact:
  assumes "h \<in> set handlers"
    and "vd \<in> set (produced h req)"
  shows "map fst (vcontext vd) = [''title'', ''currentPage'']
         \<and> dom (map_of (vcontext vd)) = {''title'', ''currentPage''}"
  using handler_cases [OF assms(1)] assms(2)
  by (auto simp: produced_simps dom_map_of_conv_image_fst)

theorem context_keys_exact_witness:
  "renderTVShows \<in> set handlers
   \<and> \<lparr>templateName = ''tv-shows'',
       vcontext = [(''title'', ''TV Shows - Shows Review''), (''currentPage'', ''tv-shows'')]\<rparr>
     \<in> set (produced renderTVShows get_nonexistent)
   \<and> map fst [(''title'', ''TV Shows - Shows Review''), (''currentPage'', ''tv-shows'')]
       = [''title'', ''currentPage'']"
proof -
  let ?vd = "\<lparr>templateName = ''tv-shows'',
       vcontext = [(''title'', ''TV Shows - Shows Review''), (''currentPage'', ''tv-shows'')]\<rparr>"
  have a: "renderTVShows \<in> set handlers"
    by (simp add: handlers_def)
  have b: "?vd \<in> set (produced renderTVShows get_nonexistent)"
    by (simp add: produced_simps)
  from context_keys_exact [OF a b, THEN conjunct1] a b show ?thesis
    by simp
qed

section \<open>The dispatcher\<close>

text \<open>
  C4, as the code has it. Take a request that the two body parsers pass on and that the
  static file server does not serve. If its path matches none of the three registered
  paths (compared without regard to letter case, one trailing slash allowed), or if its
  method is none of GET, HEAD and OPTIONS, then the outcome is the final handler's
  "not found" with status 404, and no handler has run. The outcome is a value of the
  dispatcher, not an exception.
\<close>

theorem unmatched_request_not_found:
  assumes "urlencoded c req = Next" and "json c req = Next" and "static c req = Next"
    and "\<not> registered (req_path req) \<or> req_method req \<notin> {''GET'', ''HEAD'', ''OPTIONS''}"
  shows "app_handle c req res = NotFound 404
         \<and> \<not> handler_invoked (app_handle c req res)
         \<and> descriptors (app_handle c req res) = []"
proof -
  have "app_handle c req res = router_handle routes [] req res"
    using assms(1-3) by (simp add: app_handle_def)
  moreover have "router_handle routes [] req res = NotFound 404"
    using assms(4) by (simp add: router_not_found_iff)
  ultimately show ?thesis by simp
qed

theorem unmatched_request_not_found_witness:
  "urlencoded pass_on get_nonexistent = Next \<and> json pass_on get_nonexistent = Next
   \<and> static pass_on get_nonexistent = Next
   \<and> \<not> registered (req_path get_nonexistent)
   \<and> app_handle pass_on get_nonexistent new_response = NotFound 404
   \<and> \<not> handler_invoked (app_handle pass_on get_nonexistent new_response)
   \<and> registered (req_path post_movies)
   \<and> req_method post_movies \<notin> {''GET'', ''HEAD'', ''OPTIONS''}
   \<and> app_handle pass_on post_movies new_response = NotFound 404"
proof -
  have m: "urlencoded pass_on get_nonexistent = Next" "json pass_on get_nonexistent = Next"
    "static pass_on get_nonexistent = Next"
    "urlencoded pass_on post_movies = Next" "json pass_on post_movies = Next"
    "static pass_on post_movies = Next"
    by (simp_all add: pass_on_def)
  have n: "\<not> registered (req_path get_nonexistent)"
    by (simp add: registered_iff get_nonexistent_def canonicalize_def)
  have p: "registered (req_path post_movies)"
    by (simp add: registered_iff post_movies_def canonicalize_def)
  have q: "req_method post_movies \<notin> {''GET'', ''HEAD'', ''OPTIONS''}"
    by (simp add: post_movies_def)
  from unmatched_request_not_found [OF m(1) m(2) m(3), of new_response]
       unmatched_request_not_found [OF m(4) m(5) m(6), of new_response]
       m n p q
  show ?thesis by simp
qed

text \<open>
  C4 as it is written fails for a HEAD request to \<open>/\<close>: the request is not a GET, its
  path is one of the three, no middleware ends it, and yet the route registered with
  \<open>app.get\<close> answers it, so \<open>renderHome\<close> runs and the outcome is not "not found".
\<close>

theorem head_request_counterexample:
  "req_method head_root \<noteq> ''GET''
   \<and> req_path head_root \<in> {''/'', ''/movies'', ''/tv-shows''}
   \<and> urlencoded pass_on head_root = Next \<and> json pass_on head_root = Next
   \<and> static pass_on head_root = Next
   \<and> app_handle pass_on head_root new_response \<noteq> NotFound 404
   \<and> handler_invoked (app_handle pass_on head_root new_response)
   \<and> descriptors (app_handle pass_on head_root new_response) = produced renderHome head_root"
  by (simp add: head_root_def pass_on_def app_handle_def routes_def layer_match_def
        canonicalize_def handles_method_def produced_def)

text \<open>
  C6, as the code has it. Take any run of the server, from any state of the application,
  and in it two GET requests to the same registered path that the middleware in front of
  the routes passes on, wherever the two stand in the sequence and whatever stands
  between them. They have the same outcome and the same view descriptors, namely those of
  the handler registered for the path. The outcome of a request in the run is its outcome
  when it is handled alone on the starting state, and the run leaves the application as
  it found it: no handler invocation changes what another one sees.
\<close>

theorem repeated_get_same_descriptor:
  assumes "i < length rs" and "j < length rs"
    and "req_method (rs ! i) = ''GET''" and "req_method (rs ! j) = ''GET''"
    and "req_path (rs ! i) = req_path (rs ! j)"
    and "r \<in> set routes" and "r_path r = req_path (rs ! i)"
    and "passes_on c (rs ! i)" and "passes_on c (rs ! j)"
  shows "fst (serve c s rs) ! i = fst (serve c s rs) ! j
         \<and> descriptors (fst (serve c s rs) ! i) = produced (r_handler r) (rs ! i)
         \<and> descriptors (fst (serve c s rs) ! j) = descriptors (fst (serve c s rs) ! i)
         \<and> fst (serve c s rs) ! i = app_handle c (rs ! i) (new_response\<lparr>res_app := s\<rparr>)
         \<and> snd (serve c s rs) = s"
proof -
  let ?res = "new_response\<lparr>res_app := s\<rparr>"
  have si: "fst (serve c s rs) ! i = app_handle c (rs ! i) ?res"
    and sj: "fst (serve c s rs) ! j = app_handle c (rs ! j) ?res"
    using assms(1,2) by (simp_all add: serve_nth)
  have ai: "app_handle c (rs ! i) ?res = router_handle routes [] (rs ! i) ?res"
    using assms(8) by (rule app_handle_passes)
  have aj: "app_handle c (rs ! j) ?res = router_handle routes [] (rs ! j) ?res"
    using assms(9) by (rule app_handle_passes)
  have same: "router_handle routes [] (rs ! j) ?res = router_handle routes [] (rs ! i) ?res"
    using assms(3,4,5) by (simp add: router_method_path)
  have run: "router_handle routes [] (rs ! i) ?res = Handled (r_handler r (rs ! i) ?res)"
    using assms(3,6,7) by (rule router_registered_get)
  have calls: "render_calls (r_handler r (rs ! i) ?res) = produced (r_handler r) (rs ! i)"
    using assms(6) by (simp add: produced_def handler_calls_any_app)
  show ?thesis
    by (simp add: si sj ai aj same run calls serve_state)
qed

theorem repeated_get_same_descriptor_witness:
  "passes_on pass_on get_movies \<and> passes_on pass_on get_movies_query
   \<and> get_movies \<noteq> get_movies_query
   \<and> fst (serve pass_on started_app
            [get_movies, get_nonexistent, head_root, get_movies_query]) ! 0
     = fst (serve pass_on started_app
            [get_movies, get_nonexistent, head_root, get_movies_query]) ! 3
   \<and> descriptors (fst (serve pass_on started_app
            [get_movies, get_nonexistent, head_root, get_movies_query]) ! 0)
     = [\<lparr>templateName = ''movies'',
         vcontext = [(''title'', ''Movies - Shows Review''), (''currentPage'', ''movies'')]\<rparr>]
   \<and> snd (serve pass_on started_app
            [get_movies, get_nonexistent, head_root, get_movies_query]) = started_app"
proof -
  let ?rs = "[get_movies, get_nonexistent, head_root, get_movies_query]"
  let ?r = "\<lparr>r_method = ''GET'', r_path = ''/movies'', r_handler = renderMovies\<rparr>"
  have a: "(0::nat) < length ?rs" "(3::nat) < length ?rs"
    by simp_all
  have b: "req_method (?rs ! 0) = ''GET''" "req_method (?rs ! 3) = ''GET''"
    by (simp_all add: get_movies_def get_movies_query_def)
  have c: "req_path (?rs ! 0) = req_path (?rs ! 3)"
    by (simp add: get_movies_def get_movies_query_def)
  have d: "?r \<in> set routes"
    by (simp add: routes_def)
  have e: "r_path ?r = req_path (?rs ! 0)"
    by (simp add: get_movies_def)
  have f: "get_movies \<noteq> get_movies_query"
    by (simp add: get_movies_def get_movies_query_def)
  have p: "passes_on pass_on get_movies" "passes_on pass_on get_movies_query"
    by (simp_all add: passes_on_def pass_on_def)
  have p': "passes_on pass_on (?rs ! 0)" "passes_on pass_on (?rs ! 3)"
    using p by simp_all
  note t = repeated_get_same_descriptor [OF a(1) a(2) b(1) b(2) c d e p'(1) p'(2), of started_app]
  have g: "produced (r_handler ?r) (?rs ! 0) =
      [\<lparr>templateName = ''movies'',
         vcontext = [(''title'', ''Movies - Shows Review''), (''currentPage'', ''movies'')]\<rparr>]"
    by (simp add: produced_simps)
  show ?thesis
  proof (intro conjI)
    show "passes_on pass_on get_movies"
      by (rule p(1))
    show "passes_on pass_on get_movies_query"
      by (rule p(2))
    show "get_movies \<noteq> get_movies_query"
      by (rule f)
    show "fst (serve pass_on started_app ?rs) ! 0 = fst (serve pass_on started_app ?rs) ! 3"
      by (rule t [THEN conjunct1])
    show "descriptors (fst (serve pass_on started_app ?rs) ! 0) =
      [\<lparr>templateName = ''movies'',
         vcontext = [(''title'', ''Movies - Shows Review''), (''currentPage'', ''movies'')]\<rparr>]"
      using t [THEN conjunct2, THEN conjunct1] g by (rule trans)
    show "snd (serve pass_on started_app ?rs) = started_app"
      by (rule t [THEN conjunct2, THEN conjunct2, THEN conjunct2, THEN conjunct2])
  qed
qed

text \<open>
  C6 as it is written fails for two GET requests to \<open>/movies\<close> of which the second
  announces a JSON body and carries the text \<open>{\<close>: the JSON parser in front of the routes
  ends the second with status 400 before any handler runs, so the first has the view
  descriptor of \<open>renderMovies\<close> and the second has none.
\<close>

theorem malformed_body_counterexample:
  "req_method get_movies = ''GET'' \<and> req_method get_movies_bad_json = ''GET''
   \<and> req_path get_movies = ''/movies'' \<and> req_path get_movies_bad_json = ''/movies''
   \<and> descriptors (fst (serve rejecting_json started_app [get_movies, get_movies_bad_json]) ! 0)
       = produced renderMovies get_movies
   \<and> fst (serve rejecting_json started_app [get_movies, get_movies_bad_json]) ! 1 = Ended 400
   \<and> descriptors (fst (serve rejecting_json started_app [get_movies, get_movies_bad_json]) ! 0)
       \<noteq> descriptors (fst (serve rejecting_json started_app [get_movies, get_movies_bad_json]) ! 1)"
  by (simp add: get_movies_def get_movies_bad_json_def rejecting_json_def app_handle_def
        routes_def layer_match_def canonicalize_def handles_method_def produced_def
        renderMovies_def res_render_def new_response_def Let_def)

section \<open>The listening port\<close>

text \<open>
  C8. When the environment does not set \<open>PORT\<close>, the port handed to \<open>app.listen\<close> is the
  number 3000; when it sets \<open>PORT\<close> to a port number, which is a string that is not
  empty, the port handed to \<open>app.listen\<close> is that string.
\<close>

theorem PORT_supplied_or_default:
  "(env ''PORT'' = None \<longrightarrow> PORT env = JNumber 3000)
   \<and> (env ''PORT'' = Some s \<and> s \<noteq> [] \<longrightarrow> PORT env = JString s)"
  by (simp add: PORT_def js_or_def process_env_def)

theorem PORT_supplied_or_default_witness:
  "PORT Map.empty = JNumber 3000 \<and> PORT [''PORT'' \<mapsto> ''8080''] = JString ''8080''"
  using PORT_supplied_or_default [of Map.empty]
    PORT_supplied_or_default [of "[''PORT'' \<mapsto> ''8080'']" "''8080''"]
  by simp

end
